theory Spec2Isabelle
  imports Complex_Main
begin

section \<open>Points, directions and rectangles\<close>

text \<open>
  \<^verbatim>\<open>Point = namedtuple('Point','x,y')\<close>. The coordinates are Python numbers: the
  initial head is \<^verbatim>\<open>Point(self.w/2, self.h/2)\<close>, a true division, so a coordinate is
  a float that holds an integer or a half-integer. Such values, and their sums with
  multiples of \<^verbatim>\<open>BLOCK\<close>, are exact in binary floating point for every board size a
  display can have, so the model takes the coordinates as rationals. The selectors are
  \<open>px\<close> and \<open>py\<close> for the source's \<^verbatim>\<open>.x\<close> and \<^verbatim>\<open>.y\<close>.
\<close>

datatype Point = Point (px: rat) (py: rat)

datatype Direction = RIGHT | LEFT | UP | DOWN

fun Direction_value :: "Direction \<Rightarrow> Point" where
  "Direction_value RIGHT = Point 1 0"
| "Direction_value LEFT = Point (-1) 0"
| "Direction_value UP = Point 0 (-1)"
| "Direction_value DOWN = Point 0 1"

definition BLOCK :: int where
  "BLOCK = 20"

text \<open>
  \<^verbatim>\<open>pygame.Rect(x, y, w, h)\<close> keeps integers: a float argument is cut to its integer
  part (rounded towards zero), as a C cast does.
\<close>

datatype Rect = Rect (left: int) (top: int) (width: int) (height: int)

definition to_int :: "rat \<Rightarrow> int" where
  "to_int q = (if 0 \<le> q then \<lfloor>q\<rfloor> else \<lceil>q\<rceil>)"

definition pygame_Rect :: "rat \<Rightarrow> rat \<Rightarrow> int \<Rightarrow> int \<Rightarrow> Rect" where
  "pygame_Rect a b c d = Rect (to_int a) (to_int b) c d"

text \<open>
  \<^verbatim>\<open>Rect.colliderect\<close>: two rectangles collide when they overlap in an area; a rectangle
  of width or height 0 collides with nothing, and touching edges do not collide.
\<close>

definition colliderect :: "Rect \<Rightarrow> Rect \<Rightarrow> bool" where
  "colliderect a b =
     (if width a = 0 \<or> height a = 0 \<or> width b = 0 \<or> height b = 0 then False
      else min (left a) (left a + width a) < max (left b) (left b + width b)
         \<and> min (top a) (top a + height a) < max (top b) (top b + height b)
         \<and> max (left a) (left a + width a) > min (left b) (left b + width b)
         \<and> max (top a) (top a + height a) > min (top b) (top b + height b))"

text \<open>
  \<^verbatim>\<open>Rect.collidelist(rects)\<close>: the index of the first rectangle of the list that
  collides, or \<open>-1\<close>.
\<close>

fun collidelist_from :: "int \<Rightarrow> Rect \<Rightarrow> Rect list \<Rightarrow> int" where
  "collidelist_from i r [] = -1"
| "collidelist_from i r (q # qs) = (if colliderect r q then i else collidelist_from (i + 1) r qs)"

definition collidelist :: "Rect \<Rightarrow> Rect list \<Rightarrow> int" where
  "collidelist r rs = collidelist_from 0 r rs"

section \<open>The game object\<close>

text \<open>
  The fields of \<^verbatim>\<open>SnakeGame\<close> that carry game state. \<^verbatim>\<open>fruit_rect\<close> is an attribute
  that \<^verbatim>\<open>__init__\<close> does not set: \<open>None\<close> stands for the missing attribute. The screen,
  the clock and the font are the display's and are left out; so are the drawing calls.
\<close>

record SnakeGame =
  w :: int
  h :: int
  direction :: Direction
  score :: int
  fruit :: "Point option"
  head :: Point
  snake :: "Point list"
  snake_rect :: "Rect list"
  fruit_rect :: "Rect option"

datatype error = IndexError | AttributeError | ValueError | pygame_error

text \<open>
  \<^verbatim>\<open>__init__(self, w=1000, h=600)\<close>. It checks nothing itself. Its call
  \<^verbatim>\<open>pygame.display.set_mode((w,h))\<close> raises \<^verbatim>\<open>pygame.error\<close> for a negative width
  or height (and takes the screen's size for a 0), before any field but \<^verbatim>\<open>w\<close> and
  \<^verbatim>\<open>h\<close> is set.
\<close>

definition SnakeGame_init :: "int \<Rightarrow> int \<Rightarrow> error + SnakeGame" where
  "SnakeGame_init wd ht =
     (if wd < 0 \<or> ht < 0 then Inl pygame_error
      else
        let hd0 = Point (of_int wd / 2) (of_int ht / 2);
            sn = [hd0,
                  Point (px hd0 - of_int BLOCK) (py hd0),
                  Point (px hd0 - 2 * of_int BLOCK) (py hd0)]
        in Inr \<lparr> w = wd, h = ht, direction = RIGHT, score = 0, fruit = None, head = hd0,
                 snake = sn,
                 snake_rect = map (\<lambda>pt. pygame_Rect (px pt) (py pt) BLOCK BLOCK) sn,
                 fruit_rect = None \<rparr>)"

subsection \<open>Fruit placement\<close>

text \<open>
  \<^verbatim>\<open>createFruit\<close> draws \<^verbatim>\<open>x = random.randint(0, self.w - BLOCK)\<close> and
  \<^verbatim>\<open>y = random.randint(0, self.h - BLOCK)\<close> until the rectangle at \<open>(x, y)\<close> collides
  with no rectangle of the snake. The draws are the environment's: the model takes them
  as a list of pairs and hands back the unused ones. When every supplied draw is refused
  the loop has not returned, which is the value \<open>None\<close>. \<^verbatim>\<open>randint(0, b)\<close> raises
  \<^verbatim>\<open>ValueError\<close> for \<open>b < 0\<close>.
\<close>

type_synonym draws = "(int \<times> int) list"

fun createFruit_loop :: "Rect list \<Rightarrow> draws \<Rightarrow> ((int \<times> int) \<times> draws) option" where
  "createFruit_loop rects [] = None"
| "createFruit_loop rects ((a, b) # ds) =
     (if collidelist (pygame_Rect (of_int a) (of_int b) BLOCK BLOCK) rects \<noteq> -1
      then createFruit_loop rects ds
      else Some ((a, b), ds))"

definition createFruit :: "SnakeGame \<Rightarrow> draws \<Rightarrow> (error + SnakeGame \<times> draws) option" where
  "createFruit s ds =
     (if w s - BLOCK < 0 \<or> h s - BLOCK < 0 then Some (Inl ValueError)
      else case createFruit_loop (snake_rect s) ds of
             None \<Rightarrow> None
           | Some ((a, b), ds') \<Rightarrow>
               Some (Inr (s\<lparr> fruit := Some (Point (of_int a) (of_int b)),
                             fruit_rect := Some (pygame_Rect (of_int a) (of_int b) BLOCK BLOCK) \<rparr>,
                          ds')))"

text \<open>What \<^verbatim>\<open>randint\<close> can return on the board of \<open>s\<close>.\<close>

definition in_range :: "SnakeGame \<Rightarrow> int \<times> int \<Rightarrow> bool" where
  "in_range s d = (0 \<le> fst d \<and> fst d \<le> w s - BLOCK \<and> 0 \<le> snd d \<and> snd d \<le> h s - BLOCK)"

definition valid_draws :: "SnakeGame \<Rightarrow> draws \<Rightarrow> bool" where
  "valid_draws s ds = list_all (in_range s) ds"

subsection \<open>One tick\<close>

text \<open>
  \<^verbatim>\<open>updateScore\<close>: with a fruit on the board, the fruit is eaten when its rectangle
  collides with the rectangle of the head. It returns whether the fruit was eaten.
  (The \<^verbatim>\<open>print\<close> of the score is output only.)
\<close>

definition updateScore :: "SnakeGame \<Rightarrow> error + bool \<times> SnakeGame" where
  "updateScore s =
     (case fruit s of
        None \<Rightarrow> Inr (False, s)
      | Some f \<Rightarrow>
          (case fruit_rect s of
             None \<Rightarrow> Inl AttributeError
           | Some fr \<Rightarrow>
               (case snake_rect s of
                  [] \<Rightarrow> Inl IndexError
                | r0 # rs \<Rightarrow>
                    if colliderect fr r0
                    then Inr (True, s\<lparr> fruit := None, score := score s + 1 \<rparr>)
                    else Inr (False, s))))"

text \<open>
  \<^verbatim>\<open>move\<close>: the new head is put in front of both lists; the tail is popped from both
  unless \<^verbatim>\<open>updateScore\<close> returned \<open>True\<close>. (The source reads \<^verbatim>\<open>game.direction\<close>, the
  module's one game object, which is \<^verbatim>\<open>self\<close>.)
\<close>

definition insert_head :: "SnakeGame \<Rightarrow> Point \<Rightarrow> SnakeGame" where
  "insert_head s hd0 =
     (let a = px (Direction_value (direction s)) * of_int BLOCK + px hd0;
          b = py (Direction_value (direction s)) * of_int BLOCK + py hd0
      in s\<lparr> snake := Point a b # snake s,
             snake_rect := pygame_Rect a b BLOCK BLOCK # snake_rect s \<rparr>)"

definition move :: "SnakeGame \<Rightarrow> error + SnakeGame" where
  "move s =
     (case snake s of
        [] \<Rightarrow> Inl IndexError
      | hd0 # tl0 \<Rightarrow>
          (case updateScore (insert_head s hd0) of
             Inl e \<Rightarrow> Inl e
           | Inr (ate, s2) \<Rightarrow>
               if \<not> ate
               then Inr (s2\<lparr> snake := butlast (snake s2), snake_rect := butlast (snake_rect s2) \<rparr>)
               else Inr s2))"

definition isGameOver :: "SnakeGame \<Rightarrow> error + bool" where
  "isGameOver s =
     (case snake s of
        [] \<Rightarrow> Inl IndexError
      | hd0 # tl0 \<Rightarrow>
          (case snake_rect s of
             [] \<Rightarrow> Inl IndexError
           | r0 # rs \<Rightarrow>
               Inr (collidelist r0 rs \<noteq> -1
                    \<or> \<not> (0 \<le> px hd0 \<and> px hd0 \<le> of_int (w s - BLOCK))
                    \<or> \<not> (0 \<le> py hd0 \<and> py hd0 \<le> of_int (h s - BLOCK)))))"

text \<open>
  \<^verbatim>\<open>playStep\<close> returns \<open>False\<close> when the game is over and \<open>True\<close> otherwise; here it
  also returns the game object and the draws it has not used.
\<close>

definition playStep :: "SnakeGame \<Rightarrow> draws \<Rightarrow> (error + bool \<times> SnakeGame \<times> draws) option" where
  "playStep s ds =
     (case move s of
        Inl e \<Rightarrow> Some (Inl e)
      | Inr s1 \<Rightarrow>
          (case isGameOver s1 of
             Inl e \<Rightarrow> Some (Inl e)
           | Inr over \<Rightarrow>
               if over then Some (Inr (False, s1, ds))
               else if fruit s1 = None
               then (case createFruit s1 ds of
                       None \<Rightarrow> None
                     | Some (Inl e) \<Rightarrow> Some (Inl e)
                     | Some (Inr (s2, ds')) \<Rightarrow> Some (Inr (True, s2, ds')))
               else Some (Inr (True, s1, ds))))"

subsection \<open>The controls of the main loop\<close>

datatype key = K_ESCAPE | K_UP | K_DOWN | K_LEFT | K_RIGHT | K_other

text \<open>
  A \<^verbatim>\<open>KEYDOWN\<close> event: two \<^verbatim>\<open>if\<close>/\<^verbatim>\<open>elif\<close> pairs, the second reading the direction
  the first may have set.
\<close>

definition on_keydown :: "key \<Rightarrow> SnakeGame \<Rightarrow> SnakeGame" where
  "on_keydown k s =
     (let s1 = (if k = K_UP \<and> direction s \<noteq> DOWN then s\<lparr> direction := UP \<rparr>
                else if k = K_DOWN \<and> direction s \<noteq> UP then s\<lparr> direction := DOWN \<rparr>
                else s)
      in if k = K_LEFT \<and> direction s1 \<noteq> RIGHT then s1\<lparr> direction := LEFT \<rparr>
         else if k = K_RIGHT \<and> direction s1 \<noteq> LEFT then s1\<lparr> direction := RIGHT \<rparr>
         else s1)"

text \<open>
  The states of the main loop, with its \<^verbatim>\<open>running\<close> flag: the game is constructed,
  \<^verbatim>\<open>playStep\<close> is called while the flag is set and sets it, and key events come
  between the ticks; escape clears the flag.
\<close>

inductive reach :: "bool \<Rightarrow> SnakeGame \<Rightarrow> bool" where
  start: "SnakeGame_init wd ht = Inr s \<Longrightarrow> reach True s"
| tick: "reach True s \<Longrightarrow> valid_draws s ds \<Longrightarrow> playStep s ds = Some (Inr (b, s', ds'))
           \<Longrightarrow> reach b s'"
| keydown: "reach b s \<Longrightarrow> reach (b \<and> k \<noteq> K_ESCAPE) (on_keydown k s)"


section \<open>Notions of the specification\<close>

text \<open>The rectangle the game keeps for a point, as \<^verbatim>\<open>__init__\<close> and \<^verbatim>\<open>move\<close> build it.\<close>

definition rect_of :: "Point \<Rightarrow> Rect" where
  "rect_of pt = pygame_Rect (px pt) (py pt) BLOCK BLOCK"

text \<open>The head one step further in direction \<open>d\<close>, as \<^verbatim>\<open>move\<close> computes it.\<close>

definition step_head :: "Direction \<Rightarrow> Point \<Rightarrow> Point" where
  "step_head d p = Point (px (Direction_value d) * of_int BLOCK + px p)
                         (py (Direction_value d) * of_int BLOCK + py p)"

text \<open>A coordinate is a multiple of \<open>BLOCK\<close>; a point is grid-aligned when both are.\<close>

definition multiple_of_BLOCK :: "rat \<Rightarrow> bool" where
  "multiple_of_BLOCK q = (of_int (BLOCK * \<lfloor>q / of_int BLOCK\<rfloor>) = q)"

definition grid_aligned :: "Point \<Rightarrow> bool" where
  "grid_aligned p = (multiple_of_BLOCK (px p) \<and> multiple_of_BLOCK (py p))"

text \<open>Two points lie on one grid of mesh \<open>BLOCK\<close>.\<close>

definition same_grid :: "Point \<Rightarrow> Point \<Rightarrow> bool" where
  "same_grid p q = (multiple_of_BLOCK (px p - px q) \<and> multiple_of_BLOCK (py p - py q))"

definition nonneg :: "Point \<Rightarrow> bool" where
  "nonneg p = (0 \<le> px p \<and> 0 \<le> py p)"

text \<open>The board \<open>[0, w - BLOCK] \<times> [0, h - BLOCK]\<close>.\<close>

definition inside :: "SnakeGame \<Rightarrow> Point \<Rightarrow> bool" where
  "inside s p = (0 \<le> px p \<and> px p \<le> of_int (w s - BLOCK) \<and> 0 \<le> py p \<and> py p \<le> of_int (h s - BLOCK))"

definition centre :: "SnakeGame \<Rightarrow> Point" where
  "centre s = Point (of_int (w s) / 2) (of_int (h s) / 2)"

text \<open>The snake and the fruit are still those of a new game.\<close>

definition fresh :: "SnakeGame \<Rightarrow> bool" where
  "fresh s = (snake s = [centre s,
                         Point (px (centre s) - of_int BLOCK) (py (centre s)),
                         Point (px (centre s) - 2 * of_int BLOCK) (py (centre s))]
              \<and> fruit s = None)"

text \<open>
  A fruit on the board: integer coordinates that \<^verbatim>\<open>randint\<close> can return, with its
  rectangle stored.
\<close>

definition fruit_ok :: "SnakeGame \<Rightarrow> Point \<Rightarrow> bool" where
  "fruit_ok s f = (px f = of_int \<lfloor>px f\<rfloor> \<and> py f = of_int \<lfloor>py f\<rfloor> \<and> in_range s (\<lfloor>px f\<rfloor>, \<lfloor>py f\<rfloor>)
                   \<and> fruit_rect s = Some (rect_of f))"

text \<open>
  The invariant of the game object: the two lists are in step, every segment lies on
  the grid through the centre of the board, and a fruit is a fruit of the board.
\<close>

definition consistent :: "SnakeGame \<Rightarrow> bool" where
  "consistent s =
     (snake_rect s = map rect_of (snake s)
      \<and> list_all (\<lambda>p. same_grid p (centre s)) (snake s)
      \<and> (case fruit s of None \<Rightarrow> True | Some f \<Rightarrow> fruit_ok s f))"

text \<open>While the game runs, no segment has a negative coordinate once the snake has moved.\<close>

definition safe :: "SnakeGame \<Rightarrow> bool" where
  "safe s = (fresh s \<or> list_all nonneg (snake s))"

text \<open>What \<^verbatim>\<open>__init__\<close> fixed for good: the board and the never updated \<^verbatim>\<open>self.head\<close>.\<close>

definition built :: "SnakeGame \<Rightarrow> bool" where
  "built s = (0 \<le> w s \<and> 0 \<le> h s \<and> head s = centre s)"

text \<open>The opposite of a direction, and the key that asks for a direction in the main loop.\<close>

fun opposite :: "Direction \<Rightarrow> Direction" where
  "opposite RIGHT = LEFT"
| "opposite LEFT = RIGHT"
| "opposite UP = DOWN"
| "opposite DOWN = UP"

fun key_of :: "Direction \<Rightarrow> key" where
  "key_of UP = K_UP"
| "key_of DOWN = K_DOWN"
| "key_of LEFT = K_LEFT"
| "key_of RIGHT = K_RIGHT"

text \<open>
  Modelled from the spec: \<^verbatim>\<open>reset()\<close>. \<^verbatim>\<open>game.py\<close> has no such operation (its main
  loop ends with the game); the spec says it "reinitializes snake (3-segment horizontal
  line centered on the board), clears fruit, score=0, direction=RIGHT". On the game
  object that is the snake with its head at the centre and two segments to its left, as
  in the spec's scenario, the list of rectangles in step with it, and no fruit and no
  fruit rectangle.
\<close>

definition reset :: "SnakeGame \<Rightarrow> SnakeGame" where
  "reset s =
     (let sn = [centre s,
                Point (px (centre s) - of_int BLOCK) (py (centre s)),
                Point (px (centre s) - 2 * of_int BLOCK) (py (centre s))]
      in s\<lparr> snake := sn, snake_rect := map rect_of sn, fruit := None, fruit_rect := None,
             score := 0, direction := RIGHT \<rparr>)"

subsection \<open>A game on the default board\<close>

text \<open>
  \<^verbatim>\<open>SnakeGame()\<close>; the game after a first tick in which \<^verbatim>\<open>randint\<close> returned 545
  and 310; and after a second tick, which eats that fruit and draws 100 and 100.
\<close>

definition game0 :: SnakeGame where
  "game0 = \<lparr> w = 1000, h = 600, direction = RIGHT, score = 0, fruit = None,
             head = Point 500 300,
             snake = [Point 500 300, Point 480 300, Point 460 300],
             snake_rect = [Rect 500 300 20 20, Rect 480 300 20 20, Rect 460 300 20 20],
             fruit_rect = None \<rparr>"

definition game1 :: SnakeGame where
  "game1 = \<lparr> w = 1000, h = 600, direction = RIGHT, score = 0, fruit = Some (Point 545 310),
             head = Point 500 300,
             snake = [Point 520 300, Point 500 300, Point 480 300],
             snake_rect = [Rect 520 300 20 20, Rect 500 300 20 20, Rect 480 300 20 20],
             fruit_rect = Some (Rect 545 310 20 20) \<rparr>"

definition game2 :: SnakeGame where
  "game2 = \<lparr> w = 1000, h = 600, direction = RIGHT, score = 1, fruit = Some (Point 100 100),
             head = Point 500 300,
             snake = [Point 540 300, Point 520 300, Point 500 300, Point 480 300],
             snake_rect = [Rect 540 300 20 20, Rect 520 300 20 20, Rect 500 300 20 20,
                           Rect 480 300 20 20],
             fruit_rect = Some (Rect 100 100 20 20) \<rparr>"

text \<open>
  The game after the first tick and the keys up and left of one frame; and after the tick
  that follows, which ends it.
\<close>

definition turned1 :: SnakeGame where
  "turned1 = \<lparr> w = 1000, h = 600, direction = LEFT, score = 0, fruit = Some (Point 545 310),
               head = Point 500 300,
               snake = [Point 520 300, Point 500 300, Point 480 300],
               snake_rect = [Rect 520 300 20 20, Rect 500 300 20 20, Rect 480 300 20 20],
               fruit_rect = Some (Rect 545 310 20 20) \<rparr>"

definition crashed1 :: SnakeGame where
  "crashed1 = \<lparr> w = 1000, h = 600, direction = LEFT, score = 0, fruit = Some (Point 545 310),
                head = Point 500 300,
                snake = [Point 500 300, Point 520 300, Point 500 300],
                snake_rect = [Rect 500 300 20 20, Rect 520 300 20 20, Rect 500 300 20 20],
                fruit_rect = Some (Rect 545 310 20 20) \<rparr>"

subsection \<open>A game on a board of 40 by 40\<close>

text \<open>\<^verbatim>\<open>SnakeGame(40, 40)\<close>, and the game after its first tick, which ends it at the wall.\<close>

definition small0 :: SnakeGame where
  "small0 = \<lparr> w = 40, h = 40, direction = RIGHT, score = 0, fruit = None,
              head = Point 20 20,
              snake = [Point 20 20, Point 0 20, Point (-20) 20],
              snake_rect = [Rect 20 20 20 20, Rect 0 20 20 20, Rect (-20) 20 20 20],
              fruit_rect = None \<rparr>"

definition small1 :: SnakeGame where
  "small1 = \<lparr> w = 40, h = 40, direction = RIGHT, score = 0, fruit = None,
              head = Point 20 20,
              snake = [Point 40 20, Point 20 20, Point 0 20],
              snake_rect = [Rect 40 20 20 20, Rect 20 20 20 20, Rect 0 20 20 20],
              fruit_rect = None \<rparr>"


section \<open>Lemmas\<close>

subsection \<open>Collisions of rectangles\<close>

lemma collidelist_from_hit:
  "0 \<le> i \<Longrightarrow> (collidelist_from i r rs \<noteq> -1) = (\<exists>q\<in>set rs. colliderect r q)"
  by (induction rs arbitrary: i) auto

lemma collidelist_hit: "(collidelist r rs \<noteq> -1) = (\<exists>q\<in>set rs. colliderect r q)"
  by (simp add: collidelist_def collidelist_from_hit)

lemma createFruit_loop_free:
  "createFruit_loop rects ds = Some ((a, b), ds') \<Longrightarrow>
     collidelist (pygame_Rect (of_int a) (of_int b) BLOCK BLOCK) rects = -1 \<and> (a, b) \<in> set ds
     \<and> set ds' \<subseteq> set ds"
  by (induction rects ds rule: createFruit_loop.induct) (auto split: if_splits)

lemma updateScore_cases:
  "updateScore s = Inr (ate, s2) \<Longrightarrow>
     (ate \<and> s2 = s\<lparr> fruit := None, score := score s + 1 \<rparr>) \<or> (\<not> ate \<and> s2 = s)"
  by (auto simp: updateScore_def split: option.splits list.splits if_splits)

lemma move_result:
  assumes "snake s = hd0 # tl0" and "updateScore (insert_head s hd0) = Inr (ate, s2)"
  shows "move s = Inr (if ate then s2 else s2\<lparr> snake := butlast (snake s2), snake_rect := butlast (snake_rect s2) \<rparr>)"
  using assms by (simp add: move_def)

lemma insert_head_fields:
  "snake (insert_head s p) = Point (px (Direction_value (direction s)) * of_int BLOCK + px p)
       (py (Direction_value (direction s)) * of_int BLOCK + py p) # snake s"
  "score (insert_head s p) = score s" "fruit (insert_head s p) = fruit s"
  "direction (insert_head s p) = direction s" "w (insert_head s p) = w s" "h (insert_head s p) = h s"
  "fruit_rect (insert_head s p) = fruit_rect s"
  by (simp_all add: insert_head_def Let_def)



lemma createFruit_fields:
  "createFruit s ds = Some (Inr (s', ds')) \<Longrightarrow>
     snake s' = snake s \<and> snake_rect s' = snake_rect s \<and> score s' = score s \<and> direction s' = direction s
     \<and> w s' = w s \<and> h s' = h s \<and> head s' = head s \<and> fruit s' \<noteq> None"
  by (auto simp: createFruit_def split: option.splits if_splits)

lemma playStep_move:
  "playStep s ds = Some (Inr (b, s', ds')) \<Longrightarrow>
     \<exists>s1. move s = Inr s1 \<and> snake s' = snake s1 \<and> snake_rect s' = snake_rect s1 \<and> score s' = score s1
        \<and> direction s' = direction s1 \<and> w s' = w s1 \<and> h s' = h s1 \<and> head s' = head s1
        \<and> isGameOver s1 = Inr (\<not> b)"
  by (auto simp: playStep_def split: sum.splits if_splits option.splits dest: createFruit_fields)



lemma multiple_of_BLOCK_iff: "multiple_of_BLOCK q = (\<exists>i. q = of_int (BLOCK * i))"
proof
  assume "multiple_of_BLOCK q"
  then show "\<exists>i. q = of_int (BLOCK * i)"
    unfolding multiple_of_BLOCK_def by metis
next
  assume "\<exists>i. q = of_int (BLOCK * i)"
  then obtain i where q: "q = of_int (BLOCK * i)" ..
  have "q / of_int BLOCK = of_int i" by (simp add: q BLOCK_def)
  then show "multiple_of_BLOCK q"
    unfolding multiple_of_BLOCK_def by (simp add: q)
qed

lemma to_int_nonneg: "0 \<le> q \<Longrightarrow> to_int q = \<lfloor>q\<rfloor>"
  by (simp add: to_int_def)

lemma to_int_of_int [simp]: "to_int (of_int a) = a"
  by (simp add: to_int_def)

lemma colliderect_BLOCK:
  "colliderect (Rect a b BLOCK BLOCK) (Rect c d BLOCK BLOCK) =
     (a < c + BLOCK \<and> c < a + BLOCK \<and> b < d + BLOCK \<and> d < b + BLOCK)"
  by (auto simp: colliderect_def BLOCK_def)

lemma floor_shift:
  assumes "multiple_of_BLOCK (a - b)"
  shows "\<exists>i. \<lfloor>a\<rfloor> = \<lfloor>b\<rfloor> + BLOCK * i \<and> a = b + of_int (BLOCK * i)"
proof -
  from assms obtain i where i: "a - b = of_int (BLOCK * i)"
    by (auto simp: multiple_of_BLOCK_iff)
  then have a: "a = b + of_int (BLOCK * i)" by simp
  have "\<lfloor>a\<rfloor> = \<lfloor>b\<rfloor> + BLOCK * i" unfolding a by (rule floor_add_int [symmetric])
  with a show ?thesis by blast
qed

lemma collide_iff_eq:
  assumes "nonneg p" "nonneg q" "same_grid p q"
  shows "colliderect (rect_of p) (rect_of q) = (p = q)"
proof -
  from assms(3) obtain i where i: "\<lfloor>px p\<rfloor> = \<lfloor>px q\<rfloor> + BLOCK * i" "px p = px q + of_int (BLOCK * i)"
    unfolding same_grid_def using floor_shift by blast
  from assms(3) obtain j where j: "\<lfloor>py p\<rfloor> = \<lfloor>py q\<rfloor> + BLOCK * j" "py p = py q + of_int (BLOCK * j)"
    unfolding same_grid_def using floor_shift by blast
  have "colliderect (rect_of p) (rect_of q) =
          (\<lfloor>px p\<rfloor> < \<lfloor>px q\<rfloor> + BLOCK \<and> \<lfloor>px q\<rfloor> < \<lfloor>px p\<rfloor> + BLOCK
           \<and> \<lfloor>py p\<rfloor> < \<lfloor>py q\<rfloor> + BLOCK \<and> \<lfloor>py q\<rfloor> < \<lfloor>py p\<rfloor> + BLOCK)"
    using assms(1,2)
    by (simp add: rect_of_def pygame_Rect_def colliderect_BLOCK nonneg_def to_int_nonneg)
  also have "\<dots> = (i = 0 \<and> j = 0)"
    unfolding i(1) j(1) by (auto simp: BLOCK_def)
  also have "\<dots> = (p = q)"
    using i(2) j(2) by (cases p; cases q) (auto simp: BLOCK_def)
  finally show ?thesis .
qed

lemma multiple_of_BLOCK_0 [simp]: "multiple_of_BLOCK 0"
  by (simp add: multiple_of_BLOCK_def)

lemma multiple_of_BLOCK_add:
  "multiple_of_BLOCK a \<Longrightarrow> multiple_of_BLOCK (a + of_int (BLOCK * i))"
  unfolding multiple_of_BLOCK_iff
proof -
  assume "\<exists>k. a = of_int (BLOCK * k)"
  then obtain k where "a = of_int (BLOCK * k)" ..
  then have "a + of_int (BLOCK * i) = of_int (BLOCK * (k + i))"
    by (simp add: algebra_simps)
  then show "\<exists>k. a + of_int (BLOCK * i) = of_int (BLOCK * k)" ..
qed

lemma same_grid_step: "same_grid p c \<Longrightarrow> same_grid (step_head d p) c"
proof -
  assume a: "same_grid p c"
  have x: "px (step_head d p) - px c = (px p - px c) + of_int (BLOCK * (case d of RIGHT \<Rightarrow> 1 | LEFT \<Rightarrow> -1 | _ \<Rightarrow> 0))"
    by (cases d) (simp_all add: step_head_def)
  have y: "py (step_head d p) - py c = (py p - py c) + of_int (BLOCK * (case d of DOWN \<Rightarrow> 1 | UP \<Rightarrow> -1 | _ \<Rightarrow> 0))"
    by (cases d) (simp_all add: step_head_def)
  show ?thesis using a unfolding same_grid_def x y
    by (simp only: multiple_of_BLOCK_add)
qed

lemma init_fields:
  assumes "SnakeGame_init wd ht = Inr s"
  shows "w s = wd" "h s = ht" "direction s = RIGHT" "score s = 0" "fruit s = None"
    "snake s = [Point (of_int wd / 2) (of_int ht / 2),
                Point (of_int wd / 2 - of_int BLOCK) (of_int ht / 2),
                Point (of_int wd / 2 - 2 * of_int BLOCK) (of_int ht / 2)]"
    "snake_rect s = map rect_of (snake s)" "fruit_rect s = None" "0 \<le> wd" "0 \<le> ht"
    "head s = Point (of_int wd / 2) (of_int ht / 2)"
  using assms by (auto simp: SnakeGame_init_def Let_def rect_of_def split: if_splits)

lemma init_fresh: "SnakeGame_init wd ht = Inr s \<Longrightarrow> fresh s"
  by (simp add: fresh_def centre_def init_fields)

lemma init_consistent:
  assumes "SnakeGame_init wd ht = Inr s" shows "consistent s"
proof -
  have "multiple_of_BLOCK (0 - of_int BLOCK)" "multiple_of_BLOCK (0 - 2 * of_int BLOCK)"
    by (simp_all add: multiple_of_BLOCK_def BLOCK_def)
  then show ?thesis
    by (simp add: consistent_def init_fields [OF assms] centre_def same_grid_def)
qed

lemma move_shape:
  assumes "move s = Inr s1" and "snake_rect s = map rect_of (snake s)"
  shows "\<exists>hd0 tl0. snake s = hd0 # tl0 \<and> w s1 = w s \<and> h s1 = h s \<and> direction s1 = direction s
           \<and> head s1 = head s \<and> fruit_rect s1 = fruit_rect s
           \<and> snake_rect s1 = map rect_of (snake s1)
           \<and> ((fruit s \<noteq> None \<and> snake s1 = step_head (direction s) hd0 # snake s
                 \<and> fruit s1 = None \<and> score s1 = score s + 1)
              \<or> (snake s1 = step_head (direction s) hd0 # butlast (snake s)
                 \<and> fruit s1 = fruit s \<and> score s1 = score s))"
proof (cases "snake s")
  case Nil
  with assms(1) show ?thesis by (simp add: move_def)
next
  case (Cons hd0 tl0)
  from assms(1) Cons obtain ate s2 where u: "updateScore (insert_head s hd0) = Inr (ate, s2)"
    by (auto simp: move_def split: sum.splits)
  have ih: "snake_rect (insert_head s hd0) = map rect_of (snake (insert_head s hd0))"
       "snake (insert_head s hd0) = step_head (direction s) hd0 # snake s"
    using assms(2) by (simp_all add: insert_head_def Let_def rect_of_def step_head_def)
  from move_result [OF Cons u] assms(1)
  have s1: "s1 = (if ate then s2 else s2\<lparr> snake := butlast (snake s2), snake_rect := butlast (snake_rect s2) \<rparr>)"
    by simp
  from updateScore_cases [OF u] show ?thesis
  proof
    assume a: "ate \<and> s2 = insert_head s hd0\<lparr> fruit := None, score := score (insert_head s hd0) + 1 \<rparr>"
    have "fruit s \<noteq> None" using u a
      by (auto simp: updateScore_def insert_head_fields split: option.splits)
    with a s1 ih Cons show ?thesis by (simp add: insert_head_fields insert_head_def Let_def)
  next
    assume a: "\<not> ate \<and> s2 = insert_head s hd0"
    with s1 ih Cons show ?thesis
      by (simp add: insert_head_fields map_butlast insert_head_def Let_def)
  qed
qed

lemma ball_butlast: "\<forall>p\<in>set xs. P p \<Longrightarrow> \<forall>p\<in>set (butlast xs). P p"
  by (meson in_set_butlastD)

lemma move_consistent:
  assumes "move s = Inr s1" and "consistent s"
  shows "consistent s1"
proof -
  from assms(2) have sync: "snake_rect s = map rect_of (snake s)"
    and grid: "\<forall>p\<in>set (snake s). same_grid p (centre s)"
    by (simp_all add: consistent_def list_all_iff)
  from move_shape [OF assms(1) sync] obtain hd0 tl0 where
    sh: "snake s = hd0 # tl0" "w s1 = w s" "h s1 = h s" "fruit_rect s1 = fruit_rect s"
      "snake_rect s1 = map rect_of (snake s1)"
      "(fruit s \<noteq> None \<and> snake s1 = step_head (direction s) hd0 # snake s \<and> fruit s1 = None)
       \<or> (snake s1 = step_head (direction s) hd0 # butlast (snake s) \<and> fruit s1 = fruit s)"
    by blast
  have c: "centre s1 = centre s" by (simp add: centre_def sh)
  have nh: "same_grid (step_head (direction s) hd0) (centre s)"
    using grid sh(1) by (simp add: same_grid_step)
  have g1: "\<forall>p\<in>set (snake s1). same_grid p (centre s1)"
    using sh(6) grid ball_butlast [OF grid] nh c by auto
  have f1: "case fruit s1 of None \<Rightarrow> True | Some f \<Rightarrow> fruit_ok s1 f"
    using sh(6) assms(2) sh(2,3,4)
    by (auto simp: consistent_def fruit_ok_def in_range_def split: option.splits)
  show ?thesis using sh(5) g1 f1 by (simp add: consistent_def list_all_iff)
qed

lemma createFruit_consistent:
  assumes "createFruit s ds = Some (Inr (s', ds'))" and "consistent s" and "valid_draws s ds"
  shows "consistent s'"
proof -
  from assms(1) obtain a b where
    l: "createFruit_loop (snake_rect s) ds = Some ((a, b), ds')"
    and s': "s' = s\<lparr> fruit := Some (Point (of_int a) (of_int b)),
                     fruit_rect := Some (pygame_Rect (of_int a) (of_int b) BLOCK BLOCK) \<rparr>"
    by (auto simp: createFruit_def split: if_splits option.splits)
  from createFruit_loop_free [OF l] have "(a, b) \<in> set ds" by simp
  with assms(3) have "in_range s (a, b)" by (simp add: valid_draws_def list_all_iff)
  then have "fruit_ok s' (Point (of_int a) (of_int b))"
    by (simp add: fruit_ok_def s' in_range_def rect_of_def)
  with assms(2) show ?thesis by (simp add: consistent_def s' centre_def)
qed

lemma on_keydown_fields:
  "snake (on_keydown k s) = snake s" "snake_rect (on_keydown k s) = snake_rect s"
  "fruit (on_keydown k s) = fruit s" "fruit_rect (on_keydown k s) = fruit_rect s"
  "score (on_keydown k s) = score s" "w (on_keydown k s) = w s" "h (on_keydown k s) = h s"
  "head (on_keydown k s) = head s"
  by (simp_all add: on_keydown_def Let_def)

lemma on_keydown_consistent: "consistent s \<Longrightarrow> consistent (on_keydown k s)"
  by (simp add: consistent_def on_keydown_fields centre_def fruit_ok_def in_range_def
           split: option.splits)

lemma on_keydown_safe: "safe s \<Longrightarrow> safe (on_keydown k s)"
  by (simp add: safe_def fresh_def on_keydown_fields centre_def)

lemma fresh_step_nonneg:
  assumes "fresh s" and "inside s (step_head d (centre s))"
  shows "nonneg (centre s) \<and> nonneg (Point (px (centre s) - of_int BLOCK) (py (centre s)))"
  using assms(2)
  by (cases d) (auto simp: inside_def step_head_def centre_def nonneg_def BLOCK_def)

lemma move_safe:
  assumes "move s = Inr s1" and "consistent s" and "safe s" and "snake s1 = nh # body"
    and "inside s1 nh"
  shows "list_all nonneg (snake s1)"
proof -
  from assms(2) have sync: "snake_rect s = map rect_of (snake s)"
    by (simp add: consistent_def)
  from move_shape [OF assms(1) sync] obtain hd0 tl0 where
    sh: "snake s = hd0 # tl0" "w s1 = w s" "h s1 = h s"
      "(fruit s \<noteq> None \<and> snake s1 = step_head (direction s) hd0 # snake s)
       \<or> (snake s1 = step_head (direction s) hd0 # butlast (snake s) \<and> fruit s1 = fruit s)"
    by blast
  have nh: "nh = step_head (direction s) hd0" using sh(4) assms(4) by auto
  have nn: "nonneg nh" using assms(5) by (simp add: inside_def nonneg_def)
  from assms(3) show ?thesis unfolding safe_def
  proof
    assume f: "fresh s"
    then have hd0: "hd0 = centre s" and fr: "fruit s = None" using sh(1) by (simp_all add: fresh_def)
    have "inside s (step_head (direction s) (centre s))"
      using assms(5) nh hd0 sh(2,3) by (simp add: inside_def)
    from fresh_step_nonneg [OF f this] nn sh(4) fr f nh show ?thesis
      by (auto simp: fresh_def)
  next
    assume "list_all nonneg (snake s)"
    then have a: "\<forall>p\<in>set (snake s). nonneg p" by (simp add: list_all_iff)
    from a ball_butlast [OF a] nn sh(4) nh show ?thesis
      by (auto simp: list_all_iff)
  qed
qed

lemma move_length_score:
  assumes "move s = Inr s1" and "consistent s" and "int (length (snake s)) = 3 + score s"
  shows "int (length (snake s1)) = 3 + score s1"
proof -
  from assms(2) have sync: "snake_rect s = map rect_of (snake s)"
    by (simp add: consistent_def)
  from move_shape [OF assms(1) sync] assms(3) show ?thesis
    by auto
qed

lemma isGameOver_alive:
  assumes "isGameOver s1 = Inr False"
  shows "\<exists>nh body. snake s1 = nh # body \<and> inside s1 nh"
  using assms by (auto simp: isGameOver_def inside_def split: list.splits)

lemma reach_invariant:
  "reach b s \<Longrightarrow>
     consistent s \<and> built s \<and> int (length (snake s)) = 3 + score s \<and> (b \<longrightarrow> safe s)"
proof (induction rule: reach.induct)
  case (start wd ht s)
  then show ?case
    by (simp add: init_consistent init_fresh safe_def built_def centre_def init_fields)
next
  case (tick s ds b s' ds')
  from playStep_move [OF tick.hyps(3)] obtain s1 where
    m: "move s = Inr s1" and eq: "snake s' = snake s1" "score s' = score s1"
      "w s' = w s1" "h s' = h s1" "head s' = head s1"
    and over: "isGameOver s1 = Inr (\<not> b)" by blast
  from tick.IH have c: "consistent s" and bt: "built s"
    and g: "int (length (snake s)) = 3 + score s" and sf: "safe s" by simp_all
  have c1: "consistent s1" by (rule move_consistent [OF m c])
  have w1: "w s1 = w s" "h s1 = h s" "head s1 = head s"
    using move_shape [OF m] c by (auto simp: consistent_def)
  have "in_range s1 = in_range s" by (simp add: fun_eq_iff in_range_def w1)
  then have vd: "valid_draws s1 ds" using tick.hyps(2) by (simp add: valid_draws_def)
  have c': "consistent s'"
    using tick.hyps(3) m c1 vd
    by (auto simp: playStep_def split: sum.splits if_splits option.splits
             dest: createFruit_consistent)
  have bt': "built s'" using bt by (simp add: built_def centre_def eq w1)
  have g': "int (length (snake s')) = 3 + score s'"
    using move_length_score [OF m c g] eq by simp
  have "safe s'" if b
  proof -
    from over that have "isGameOver s1 = Inr False" by simp
    from isGameOver_alive [OF this] obtain nh body where "snake s1 = nh # body" "inside s1 nh"
      by blast
    from move_safe [OF m c sf this] show ?thesis by (simp add: safe_def eq)
  qed
  with c' bt' g' show ?case by simp
next
  case (keydown b s k)
  then show ?case
    by (simp add: on_keydown_consistent on_keydown_safe built_def centre_def on_keydown_fields)
qed

lemma to_int_numeral [simp]: "to_int (numeral n) = numeral n"
  by (simp add: to_int_def)

lemma init_game0: "SnakeGame_init 1000 600 = Inr game0"
  by (simp add: SnakeGame_init_def game0_def Let_def BLOCK_def pygame_Rect_def)

lemma move_game0:
  "move game0 = Inr (game0\<lparr> snake := [Point 520 300, Point 500 300, Point 480 300],
       snake_rect := [Rect 520 300 20 20, Rect 500 300 20 20, Rect 480 300 20 20] \<rparr>)"
  by (simp add: move_def game0_def insert_head_def updateScore_def Let_def BLOCK_def pygame_Rect_def)

lemma playStep_game0: "playStep game0 [(545, 310)] = Some (Inr (True, game1, []))"
  by (simp add: playStep_def move_game0 isGameOver_def createFruit_def collidelist_def
        colliderect_def pygame_Rect_def BLOCK_def)
     (simp add: game0_def game1_def colliderect_def)

lemma move_game1:
  "move game1 = Inr (game1\<lparr> snake := Point 540 300 # snake game1,
       snake_rect := Rect 540 300 20 20 # snake_rect game1, fruit := None, score := 1 \<rparr>)"
  by (simp add: move_def game1_def insert_head_def updateScore_def Let_def BLOCK_def pygame_Rect_def
        colliderect_def)

lemma playStep_game1: "playStep game1 [(100, 100)] = Some (Inr (True, game2, []))"
  by (simp add: playStep_def move_game1 isGameOver_def createFruit_def collidelist_def
        colliderect_def pygame_Rect_def BLOCK_def)
     (simp add: game1_def game2_def colliderect_def)

lemma reach_game0: "reach True game0"
  by (rule reach.start [OF init_game0])

lemma reach_game1: "reach True game1"
  by (rule reach.tick [OF reach_game0 _ playStep_game0])
     (simp add: valid_draws_def in_range_def game0_def BLOCK_def)

lemma reach_game2: "reach True game2"
  by (rule reach.tick [OF reach_game1 _ playStep_game1])
     (simp add: valid_draws_def in_range_def game1_def BLOCK_def)


lemma colliderect_self: "colliderect (rect_of p) (rect_of p)"
  by (simp add: rect_of_def pygame_Rect_def colliderect_def BLOCK_def)


lemma move_direction: "move s = Inr s1 \<Longrightarrow> direction s1 = direction s"
  by (auto simp: move_def updateScore_def insert_head_def Let_def
      split: list.splits sum.splits option.splits if_splits)

lemma move_new_head:
  "move s = Inr s1 \<Longrightarrow> snake s = hd0 # tl0 \<Longrightarrow> \<exists>body. snake s1 = step_head (direction s) hd0 # body"
  by (auto simp: move_def updateScore_def insert_head_def Let_def step_head_def
      split: list.splits sum.splits option.splits if_splits)

lemma createFruit_loop_returns:
  "\<exists>d\<in>set ds. collidelist (pygame_Rect (of_int (fst d)) (of_int (snd d)) BLOCK BLOCK) rects = -1
     \<Longrightarrow> \<exists>r. createFruit_loop rects ds = Some r"
  by (induction rects ds rule: createFruit_loop.induct) auto

lemma on_keydown_direction:
  "direction (on_keydown (key_of r) s) = (if r = opposite (direction s) then direction s else r)"
  by (cases r; cases "direction s") (simp_all add: on_keydown_def)


lemma multiple_of_BLOCK_sum:
  assumes "multiple_of_BLOCK a" "multiple_of_BLOCK b" shows "multiple_of_BLOCK (a + b)"
proof -
  from assms obtain i j where "a = of_int (BLOCK * i)" "b = of_int (BLOCK * j)"
    by (auto simp: multiple_of_BLOCK_iff)
  then have "a + b = of_int (BLOCK * (i + j))" by (simp add: algebra_simps)
  then show ?thesis unfolding multiple_of_BLOCK_iff ..
qed

lemma multiple_of_BLOCK_half:
  assumes "2 * BLOCK dvd n" shows "multiple_of_BLOCK (of_int n / 2)"
proof -
  from assms obtain k where "n = 2 * BLOCK * k" ..
  then have "(of_int n / 2 :: rat) = of_int (BLOCK * k)" by simp
  then show ?thesis unfolding multiple_of_BLOCK_iff ..
qed

lemma same_grid_aligned:
  assumes "same_grid p c" "grid_aligned c" shows "grid_aligned p"
proof -
  have "px p = (px p - px c) + px c" "py p = (py p - py c) + py c" by simp_all
  with assms show ?thesis
    unfolding same_grid_def grid_aligned_def by (metis multiple_of_BLOCK_sum)
qed


lemma to_int_neg_numeral [simp]: "to_int (- numeral n) = - numeral n"
  by (simp add: to_int_def)

lemma to_int_0 [simp]: "to_int 0 = 0"
  by (simp add: to_int_def)

lemma init_small0: "SnakeGame_init 40 40 = Inr small0"
  by (simp add: SnakeGame_init_def small0_def Let_def BLOCK_def pygame_Rect_def)

lemma move_small0: "move small0 = Inr small1"
  by (simp add: move_def small0_def small1_def insert_head_def updateScore_def Let_def BLOCK_def
        pygame_Rect_def)

lemma playStep_small0: "playStep small0 [] = Some (Inr (False, small1, []))"
  by (simp add: playStep_def move_small0 isGameOver_def)
     (simp add: small1_def BLOCK_def)

lemma reach_small0: "reach True small0"
  by (rule reach.start [OF init_small0])

lemma reach_small1: "reach False small1"
  by (rule reach.tick [OF reach_small0 _ playStep_small0]) (simp add: valid_draws_def)


lemma multiple_of_BLOCK_diff:
  assumes "multiple_of_BLOCK a" "multiple_of_BLOCK b" shows "multiple_of_BLOCK (a - b)"
proof -
  from assms obtain i j where "a = of_int (BLOCK * i)" "b = of_int (BLOCK * j)"
    by (auto simp: multiple_of_BLOCK_iff)
  then have "a - b = of_int (BLOCK * (i - j))" by (simp add: algebra_simps)
  then show ?thesis unfolding multiple_of_BLOCK_iff ..
qed

lemma same_grid_via:
  assumes "same_grid p c" "same_grid q c" shows "same_grid p q"
proof -
  have "px p - px q = (px p - px c) - (px q - px c)" "py p - py q = (py p - py c) - (py q - py c)"
    by simp_all
  with assms show ?thesis
    unfolding same_grid_def by (simp only: multiple_of_BLOCK_diff)
qed

lemma collidelist_map:
  assumes "nonneg nh" "\<forall>q\<in>set body. nonneg q \<and> same_grid nh q"
  shows "(collidelist (rect_of nh) (map rect_of body) \<noteq> -1) = (nh \<in> set body)"
  using assms by (auto simp: collidelist_hit collide_iff_eq)

section \<open>The claims\<close>

text \<open>
  C1. In a running game a tick reports the game over exactly when the new head is at the
  position of another segment of the snake or outside the board
  \<open>[0, w - BLOCK] \<times> [0, h - BLOCK]\<close>; the snake that is checked is the snake after the
  move: the new head in front, the tail removed unless the fruit was eaten. (The code
  tests the rectangles for overlap; on the grid of a running game that is equality of
  the positions.)
\<close>

theorem tick_game_over_iff:
  assumes "reach True s" and "playStep s ds = Some (Inr (alive, s', ds'))"
  shows "\<exists>s1 hd0 tl0 nh body.
           move s = Inr s1 \<and> snake s' = snake s1 \<and> snake s = hd0 # tl0
           \<and> snake s1 = nh # body \<and> nh = step_head (direction s) hd0
           \<and> (body = snake s \<or> body = butlast (snake s))
           \<and> ((\<not> alive) = (nh \<in> set body \<or> \<not> inside s' nh))"
proof -
  from reach_invariant [OF assms(1)] have c: "consistent s" and sf: "safe s" by simp_all
  from playStep_move [OF assms(2)] obtain s1 where
    m: "move s = Inr s1" and eq: "snake s' = snake s1" "w s' = w s1" "h s' = h s1"
    and over: "isGameOver s1 = Inr (\<not> alive)" by blast
  have c1: "consistent s1" by (rule move_consistent [OF m c])
  from c have sync: "snake_rect s = map rect_of (snake s)" by (simp add: consistent_def)
  from move_shape [OF m sync] obtain hd0 tl0 where
    sh: "snake s = hd0 # tl0"
      "snake s1 = step_head (direction s) hd0 # snake s
       \<or> snake s1 = step_head (direction s) hd0 # butlast (snake s)"
    by blast
  define nh where "nh = step_head (direction s) hd0"
  from sh(2) obtain body where b: "snake s1 = nh # body" "body = snake s \<or> body = butlast (snake s)"
    unfolding nh_def by blast
  have rects: "snake_rect s1 = rect_of nh # map rect_of body"
    using c1 b(1) by (simp add: consistent_def)
  have ins: "inside s' nh = inside s1 nh" by (simp add: inside_def eq)
  have o: "(\<not> alive) = (collidelist (rect_of nh) (map rect_of body) \<noteq> -1 \<or> \<not> inside s1 nh)"
    using over b(1) rects by (auto simp: isGameOver_def inside_def)
  have "(\<not> alive) = (nh \<in> set body \<or> \<not> inside s' nh)"
  proof (cases "inside s1 nh")
    case False
    with o ins show ?thesis by simp
  next
    case True
    from move_safe [OF m c sf b(1) True] have nn: "\<forall>q\<in>set (snake s1). nonneg q"
      by (simp add: list_all_iff)
    from c1 have "\<forall>q\<in>set (snake s1). same_grid q (centre s1)"
      by (simp add: consistent_def list_all_iff)
    then have "\<forall>q\<in>set body. same_grid nh q"
      using b(1) by (auto intro: same_grid_via)
    with nn b(1) have "(collidelist (rect_of nh) (map rect_of body) \<noteq> -1) = (nh \<in> set body)"
      by (intro collidelist_map) auto
    with o ins True show ?thesis by simp
  qed
  with m eq(1) sh(1) b nh_def show ?thesis by blast
qed

theorem tick_game_over_iff_witness:
  "reach True game0 \<and> playStep game0 [(545, 310)] = Some (Inr (True, game1, []))
   \<and> (\<exists>s1 hd0 tl0 nh body.
           move game0 = Inr s1 \<and> snake game1 = snake s1 \<and> snake game0 = hd0 # tl0
           \<and> snake s1 = nh # body \<and> nh = step_head (direction game0) hd0
           \<and> (body = snake game0 \<or> body = butlast (snake game0))
           \<and> ((\<not> True) = (nh \<in> set body \<or> \<not> inside game1 nh)))
   \<and> reach True small0 \<and> playStep small0 [] = Some (Inr (False, small1, []))
   \<and> (\<exists>s1 hd0 tl0 nh body.
           move small0 = Inr s1 \<and> snake small1 = snake s1 \<and> snake small0 = hd0 # tl0
           \<and> snake s1 = nh # body \<and> nh = step_head (direction small0) hd0
           \<and> (body = snake small0 \<or> body = butlast (snake small0))
           \<and> ((\<not> False) = (nh \<in> set body \<or> \<not> inside small1 nh)))"
  using tick_game_over_iff [OF reach_game0 playStep_game0] reach_game0 playStep_game0
    tick_game_over_iff [OF reach_small0 playStep_small0] reach_small0 playStep_small0
  by simp


text \<open>
  C2, as the specification states it: the fruit is eaten exactly when the new head is at
  the position of the fruit. The code does not compare positions: after the first tick of
  a default game with the fruit drawn at \<open>(545, 310)\<close>, the head moves to \<open>(540, 300)\<close>
  and eats the fruit.
\<close>

theorem fruit_eaten_by_overlap_counterexample:
  "reach True game1 \<and> snake game1 = Point 520 300 # [Point 500 300, Point 480 300]
   \<and> fruit game1 = Some (Point 545 310)
   \<and> step_head (direction game1) (Point 520 300) = Point 540 300
   \<and> Point 540 300 \<noteq> Point 545 310
   \<and> fst (projr (updateScore (insert_head game1 (Point 520 300)))) = True
   \<and> move game1 = Inr (game1\<lparr> snake := Point 540 300 # snake game1,
         snake_rect := Rect 540 300 20 20 # snake_rect game1, fruit := None, score := 1 \<rparr>)"
  using reach_game1 move_game1
  by (simp add: game1_def step_head_def BLOCK_def insert_head_def updateScore_def Let_def
        pygame_Rect_def colliderect_def)

text \<open>
  C2, amended: in every reachable state \<^verbatim>\<open>updateScore\<close> returns, and the fruit is eaten
  exactly when there is a fruit and its rectangle overlaps the rectangle of the new head;
  a fruit at the position of the new head is one such case.
\<close>

theorem fruit_eaten_iff_overlap:
  assumes "reach b s" and "snake s = hd0 # tl0"
  shows "\<exists>ate s2. updateScore (insert_head s hd0) = Inr (ate, s2)
           \<and> ate = (case fruit s of None \<Rightarrow> False
                     | Some f \<Rightarrow> colliderect (rect_of f) (rect_of (step_head (direction s) hd0)))
           \<and> (fruit s = Some (step_head (direction s) hd0) \<longrightarrow> ate)"
proof -
  from reach_invariant [OF assms(1)] have c: "consistent s" by simp
  have r: "snake_rect (insert_head s hd0) = rect_of (step_head (direction s) hd0) # snake_rect s"
    by (simp add: insert_head_def Let_def rect_of_def step_head_def)
  show ?thesis
  proof (cases "fruit s")
    case None
    then show ?thesis by (auto simp: updateScore_def insert_head_fields)
  next
    case (Some f)
    with c have "fruit_rect s = Some (rect_of f)" by (simp add: consistent_def fruit_ok_def)
    with Some r show ?thesis
      by (auto simp: updateScore_def insert_head_fields colliderect_self)
  qed
qed

theorem fruit_eaten_iff_overlap_witness:
  "reach True game1 \<and> snake game1 = Point 520 300 # [Point 500 300, Point 480 300]
   \<and> (\<exists>ate s2. updateScore (insert_head game1 (Point 520 300)) = Inr (ate, s2)
           \<and> ate = (case fruit game1 of None \<Rightarrow> False
                     | Some f \<Rightarrow> colliderect (rect_of f) (rect_of (step_head (direction game1) (Point 520 300))))
           \<and> ate)"
proof -
  have s: "snake game1 = Point 520 300 # [Point 500 300, Point 480 300]"
    by (simp add: game1_def)
  have "colliderect (rect_of (Point 545 310)) (rect_of (step_head (direction game1) (Point 520 300)))"
    by (simp add: game1_def step_head_def rect_of_def pygame_Rect_def colliderect_def BLOCK_def)
  with fruit_eaten_iff_overlap [OF reach_game1 s] reach_game1 s show ?thesis
    by (auto simp: game1_def)
qed

text \<open>
  C3. When the fruit is eaten the snake is one segment longer after \<^verbatim>\<open>move\<close>, the score
  is one higher and the fruit is cleared; otherwise the length and the score are those
  of before. \<^verbatim>\<open>playStep\<close> returns with the snake and the score of \<^verbatim>\<open>move\<close>.
\<close>

theorem move_growth:
  assumes "snake s = hd0 # tl0" and "updateScore (insert_head s hd0) = Inr (ate, s2)"
  shows "\<exists>s1. move s = Inr s1 \<and>
           (if ate
            then length (snake s1) = length (snake s) + 1 \<and> score s1 = score s + 1 \<and> fruit s1 = None
            else length (snake s1) = length (snake s) \<and> score s1 = score s)
           \<and> (\<forall>ds b s' ds'. playStep s ds = Some (Inr (b, s', ds')) \<longrightarrow>
                  snake s' = snake s1 \<and> score s' = score s1)"
proof -
  from updateScore_cases [OF assms(2)] have
    "\<exists>s1. move s = Inr s1 \<and>
           (if ate
            then length (snake s1) = length (snake s) + 1 \<and> score s1 = score s + 1 \<and> fruit s1 = None
            else length (snake s1) = length (snake s) \<and> score s1 = score s)"
    using move_result [OF assms] by (auto simp: insert_head_fields)
  then obtain s1 where s1: "move s = Inr s1"
    "if ate
     then length (snake s1) = length (snake s) + 1 \<and> score s1 = score s + 1 \<and> fruit s1 = None
     else length (snake s1) = length (snake s) \<and> score s1 = score s" by blast
  have "snake s' = snake s1 \<and> score s' = score s1"
    if "playStep s ds = Some (Inr (b, s', ds'))" for ds b s' ds'
    using playStep_move [OF that] s1(1) by auto
  with s1 show ?thesis by blast
qed

theorem move_growth_witness:
  "snake game1 = Point 520 300 # [Point 500 300, Point 480 300]
   \<and> updateScore (insert_head game1 (Point 520 300))
       = Inr (True, insert_head game1 (Point 520 300)\<lparr> fruit := None, score := 1 \<rparr>)
   \<and> (\<exists>s1. move game1 = Inr s1 \<and> length (snake s1) = 4 \<and> score s1 = 1 \<and> fruit s1 = None
         \<and> snake game2 = snake s1 \<and> score game2 = score s1)
   \<and> snake game0 = Point 500 300 # [Point 480 300, Point 460 300]
   \<and> updateScore (insert_head game0 (Point 500 300)) = Inr (False, insert_head game0 (Point 500 300))
   \<and> (\<exists>s1. move game0 = Inr s1 \<and> length (snake s1) = 3 \<and> score s1 = 0)"
proof -
  have a: "snake game1 = Point 520 300 # [Point 500 300, Point 480 300]"
    by (simp add: game1_def)
  have b: "updateScore (insert_head game1 (Point 520 300))
       = Inr (True, insert_head game1 (Point 520 300)\<lparr> fruit := None, score := 1 \<rparr>)"
    by (simp add: game1_def BLOCK_def insert_head_def updateScore_def Let_def
        pygame_Rect_def colliderect_def)
  have c: "snake game0 = Point 500 300 # [Point 480 300, Point 460 300]"
    by (simp add: game0_def)
  have d: "updateScore (insert_head game0 (Point 500 300)) = Inr (False, insert_head game0 (Point 500 300))"
    by (simp add: game0_def insert_head_def updateScore_def Let_def)
  from move_growth [OF a b] obtain s1 where s1: "move game1 = Inr s1"
    "length (snake s1) = length (snake game1) + 1 \<and> score s1 = score game1 + 1 \<and> fruit s1 = None"
    "\<forall>ds b s' ds'. playStep game1 ds = Some (Inr (b, s', ds')) \<longrightarrow>
        snake s' = snake s1 \<and> score s' = score s1"
    by auto
  from s1(3) playStep_game1 have "snake game2 = snake s1 \<and> score game2 = score s1" by blast
  with s1(1,2) have
    "\<exists>s1. move game1 = Inr s1 \<and> length (snake s1) = 4 \<and> score s1 = 1 \<and> fruit s1 = None
         \<and> snake game2 = snake s1 \<and> score game2 = score s1"
    by (auto simp: game1_def)
  moreover from move_growth [OF c d] have
    "\<exists>s1. move game0 = Inr s1 \<and> length (snake s1) = 3 \<and> score s1 = 0"
    by (auto simp: game0_def)
  ultimately show ?thesis using a b c d by blast
qed


text \<open>
  C4. The handler compares a key with the field \<^verbatim>\<open>game.direction\<close>, which a key
  earlier in the same frame may already have changed, and not with the direction of the
  last move. After the first tick of a default game the snake has moved \<open>RIGHT\<close>; the
  keys up and left before the next tick set the direction to \<open>LEFT\<close>, the opposite of
  the direction of travel, and the next tick puts the head on the snake's own third
  segment and ends the game. By the same comparison the key down after the key up is
  ignored, although \<open>DOWN\<close> is not the opposite of \<open>RIGHT\<close>.
\<close>

theorem two_keys_reverse_direction:
  "reach True game1 \<and> direction game1 = RIGHT
   \<and> snake game1 = [step_head RIGHT (Point 500 300), Point 500 300, Point 480 300]
   \<and> opposite RIGHT = LEFT
   \<and> on_keydown (key_of LEFT) (on_keydown (key_of UP) game1) = turned1
   \<and> direction turned1 = LEFT
   \<and> reach True turned1
   \<and> playStep turned1 [] = Some (Inr (False, crashed1, []))
   \<and> snake crashed1 = [Point 500 300, Point 520 300, Point 500 300]
   \<and> opposite RIGHT \<noteq> DOWN
   \<and> direction (on_keydown (key_of DOWN) (on_keydown (key_of UP) game1)) = UP"
proof -
  have k: "on_keydown (key_of LEFT) (on_keydown (key_of UP) game1) = turned1"
    by (simp add: on_keydown_def game1_def turned1_def)
  have "reach True (on_keydown (key_of LEFT) (on_keydown (key_of UP) game1))"
    using reach.keydown [OF reach.keydown [OF reach_game1, of K_UP], of K_LEFT] by simp
  then have r: "reach True turned1" by (simp only: k)
  have m: "move turned1 = Inr crashed1"
    by (simp add: move_def turned1_def crashed1_def insert_head_def updateScore_def Let_def
          BLOCK_def pygame_Rect_def colliderect_def)
  have p: "playStep turned1 [] = Some (Inr (False, crashed1, []))"
    by (simp add: playStep_def m isGameOver_def)
       (simp add: crashed1_def collidelist_def colliderect_def)
  have d: "direction (on_keydown (key_of DOWN) (on_keydown (key_of UP) game1)) = UP"
    by (simp add: on_keydown_def game1_def)
  show ?thesis using reach_game1 k r p d
    by (simp add: game1_def turned1_def crashed1_def step_head_def BLOCK_def)
qed

text \<open>
  C5. When \<^verbatim>\<open>createFruit\<close> returns, the rectangle of the fruit collides with no
  rectangle of the snake, whatever the draws were; with the two lists of the snake in
  step, the fruit's cell overlaps the cell of no segment, and the fruit is at the
  position of none.
\<close>

theorem createFruit_clear_of_snake:
  assumes "createFruit s ds = Some (Inr (s', ds'))"
  shows "\<exists>f. fruit s' = Some f \<and> fruit_rect s' = Some (rect_of f) \<and> snake s' = snake s
           \<and> snake_rect s' = snake_rect s
           \<and> (\<forall>r\<in>set (snake_rect s'). \<not> colliderect (rect_of f) r)
           \<and> (snake_rect s = map rect_of (snake s) \<longrightarrow>
                (\<forall>q\<in>set (snake s'). \<not> colliderect (rect_of f) (rect_of q) \<and> q \<noteq> f))"
proof -
  from assms obtain a b where
    l: "createFruit_loop (snake_rect s) ds = Some ((a, b), ds')"
    and s': "s' = s\<lparr> fruit := Some (Point (of_int a) (of_int b)),
                     fruit_rect := Some (pygame_Rect (of_int a) (of_int b) BLOCK BLOCK) \<rparr>"
    by (auto simp: createFruit_def split: if_splits option.splits)
  define f where "f = Point (of_int a) (of_int b)"
  have rf: "rect_of f = pygame_Rect (of_int a) (of_int b) BLOCK BLOCK"
    by (simp add: f_def rect_of_def)
  from createFruit_loop_free [OF l] have "collidelist (rect_of f) (snake_rect s) = -1"
    by (simp add: rf)
  then have free: "\<forall>r\<in>set (snake_rect s). \<not> colliderect (rect_of f) r"
    using collidelist_hit [of "rect_of f" "snake_rect s"] by simp
  have "\<forall>q\<in>set (snake s). \<not> colliderect (rect_of f) (rect_of q) \<and> q \<noteq> f"
    if "snake_rect s = map rect_of (snake s)"
    using free that colliderect_self by auto
  with free show ?thesis
    by (intro exI [of _ f]) (simp add: s' f_def rf [unfolded f_def])
qed

theorem createFruit_clear_of_snake_witness:
  "createFruit (game1\<lparr> fruit := None \<rparr>) [(510, 310), (100, 100)]
     = Some (Inr (game1\<lparr> fruit := Some (Point 100 100), fruit_rect := Some (Rect 100 100 20 20) \<rparr>, []))
   \<and> snake_rect game1 = map rect_of (snake game1)
   \<and> \<not> colliderect (rect_of (Point 100 100)) (rect_of (Point 520 300))
   \<and> \<not> colliderect (rect_of (Point 100 100)) (rect_of (Point 500 300))
   \<and> \<not> colliderect (rect_of (Point 100 100)) (rect_of (Point 480 300))"
proof -
  have c: "createFruit (game1\<lparr> fruit := None \<rparr>) [(510, 310), (100, 100)]
     = Some (Inr (game1\<lparr> fruit := Some (Point 100 100), fruit_rect := Some (Rect 100 100 20 20) \<rparr>, []))"
    by (simp add: createFruit_def game1_def collidelist_def colliderect_def pygame_Rect_def BLOCK_def)
  have r: "snake_rect game1 = map rect_of (snake game1)"
    by (simp add: game1_def rect_of_def pygame_Rect_def BLOCK_def)
  from createFruit_clear_of_snake [OF c] r
  have "\<forall>q\<in>set (snake game1). \<not> colliderect (rect_of (Point 100 100)) (rect_of q)"
    by auto
  then show ?thesis using c r by (simp add: game1_def)
qed


text \<open>
  C6, as the specification states it: in every reachable state the coordinates of every
  segment and of the fruit are multiples of \<open>BLOCK\<close>. After the first tick of a default
  game \<^verbatim>\<open>randint\<close> may have put the fruit at \<open>(545, 310)\<close>.
\<close>

theorem positions_grid_aligned_counterexample:
  "reach True game1 \<and> fruit game1 = Some (Point 545 310) \<and> \<not> grid_aligned (Point 545 310)"
proof -
  have "\<lfloor>545 / 20 :: rat\<rfloor> = 27" by (simp add: floor_eq_iff)
  then have "\<not> multiple_of_BLOCK 545" by (simp add: multiple_of_BLOCK_def BLOCK_def)
  then show ?thesis using reach_game1 by (simp add: grid_aligned_def game1_def)
qed

text \<open>
  C6, amended: in every reachable state every segment of the snake differs from the
  centre \<open>(w/2, h/2)\<close> of the board by multiples of \<open>BLOCK\<close> in both coordinates, so the
  segments are grid-aligned when \<open>2 * BLOCK\<close> divides the width and the height (as on the
  default board); a fruit has integer coordinates in
  \<open>[0, w - BLOCK] \<times> [0, h - BLOCK]\<close>, which need not be multiples of \<open>BLOCK\<close>.
\<close>

theorem positions_on_centre_grid:
  assumes "reach b s"
  shows "list_all (\<lambda>p. same_grid p (centre s)) (snake s)
         \<and> (2 * BLOCK dvd w s \<and> 2 * BLOCK dvd h s \<longrightarrow> list_all grid_aligned (snake s))
         \<and> (case fruit s of None \<Rightarrow> True
            | Some f \<Rightarrow> px f = of_int \<lfloor>px f\<rfloor> \<and> py f = of_int \<lfloor>py f\<rfloor> \<and> in_range s (\<lfloor>px f\<rfloor>, \<lfloor>py f\<rfloor>))"
proof -
  from reach_invariant [OF assms] have c: "consistent s" by simp
  then have g: "list_all (\<lambda>p. same_grid p (centre s)) (snake s)" by (simp add: consistent_def)
  have "list_all grid_aligned (snake s)" if "2 * BLOCK dvd w s \<and> 2 * BLOCK dvd h s"
  proof -
    from that have "grid_aligned (centre s)"
      by (simp add: grid_aligned_def centre_def multiple_of_BLOCK_half)
    with g show ?thesis by (auto simp: list_all_iff intro: same_grid_aligned)
  qed
  moreover from c have "case fruit s of None \<Rightarrow> True
            | Some f \<Rightarrow> px f = of_int \<lfloor>px f\<rfloor> \<and> py f = of_int \<lfloor>py f\<rfloor> \<and> in_range s (\<lfloor>px f\<rfloor>, \<lfloor>py f\<rfloor>)"
    by (auto simp: consistent_def fruit_ok_def split: option.splits)
  ultimately show ?thesis using g by blast
qed

theorem positions_on_centre_grid_witness:
  "reach True game1
   \<and> list_all (\<lambda>p. same_grid p (centre game1)) (snake game1)
   \<and> 2 * BLOCK dvd w game1 \<and> 2 * BLOCK dvd h game1 \<and> list_all grid_aligned (snake game1)
   \<and> in_range game1 (545, 310)"
proof -
  have d: "2 * BLOCK dvd w game1 \<and> 2 * BLOCK dvd h game1"
    by (simp add: game1_def BLOCK_def)
  from positions_on_centre_grid [OF reach_game1] d show ?thesis
    using reach_game1 by (simp add: game1_def)
qed





text \<open>
  C8. \<^verbatim>\<open>reset\<close>, in any reachable state, also one in which the game is over, gives
  the game that \<^verbatim>\<open>__init__\<close> constructs for the same board: the head at the centre
  with two segments to its left, no fruit, score 0 and direction \<open>RIGHT\<close>.
\<close>

theorem reset_is_new_game:
  assumes "reach b s"
  shows "SnakeGame_init (w s) (h s) = Inr (reset s)
         \<and> snake (reset s) = [centre s, Point (px (centre s) - of_int BLOCK) (py (centre s)),
                               Point (px (centre s) - 2 * of_int BLOCK) (py (centre s))]
         \<and> fruit (reset s) = None \<and> score (reset s) = 0 \<and> direction (reset s) = RIGHT"
proof -
  from reach_invariant [OF assms] have "built s" by simp
  then show ?thesis
    by (simp add: built_def SnakeGame_init_def reset_def Let_def centre_def rect_of_def)
qed

theorem reset_is_new_game_witness:
  "reach False small1 \<and> SnakeGame_init 40 40 = Inr (reset small1) \<and> reset small1 = small0
   \<and> reach True game2 \<and> SnakeGame_init 1000 600 = Inr (reset game2) \<and> reset game2 = game0"
proof -
  have "w small1 = 40" "h small1 = 40" "w game2 = 1000" "h game2 = 600"
    by (simp_all add: small1_def game2_def)
  with reset_is_new_game [OF reach_small1] reset_is_new_game [OF reach_game2]
  have "SnakeGame_init 40 40 = Inr (reset small1)" "SnakeGame_init 1000 600 = Inr (reset game2)"
    by simp_all
  then show ?thesis using reach_small1 reach_game2 init_small0 init_game0 by simp
qed

text \<open>
  C9. In every reachable state the snake has as many segments as 3 plus the score.
\<close>

theorem snake_length_is_score_plus_3:
  "reach b s \<Longrightarrow> int (length (snake s)) = 3 + score s"
  using reach_invariant by blast

theorem snake_length_is_score_plus_3_witness:
  "reach True game2 \<and> int (length (snake game2)) = 3 + score game2 \<and> score game2 = 1
   \<and> length (snake game2) = 4"
  using snake_length_is_score_plus_3 [OF reach_game2] reach_game2 by (simp add: game2_def)



end
